theory Spec2Isabelle
  imports Main "HOL-Library.AList"
begin

section \<open>Run-time values\<close>

text \<open>
  The class of \<^verbatim>\<open>src/index.ts\<close> checks its arguments at run time
  (\<^verbatim>\<open>_isInvalidParam\<close>), so the model works on run-time values rather than on the
  TypeScript types.  A value is a primitive, an array or a plain object; an object is
  the list of its own enumerable properties in enumeration order.  Numbers are
  integers (the program only tests them for truthiness), a string is a list of
  characters.  An object is a plain object: its prototype is \<^verbatim>\<open>Object.prototype\<close>.
  The rule that enumerates integer-like property names before the others is not part
  of the model: every statement below reads an object through \<open>map_of\<close> or through the
  set of its property names.
\<close>

datatype jsval =
    JUndefined
  | JNull
  | JBool bool
  | JNum int
  | JStr string
  | JArr "jsval list"
  | JObj "(string \<times> jsval) list"

text \<open>
  What a property read \<^verbatim>\<open>v[key]\<close> gives: the value of an own property
  (\<^verbatim>\<open>undefined\<close> when there is none anywhere), or a member that \<open>v\<close> inherits from its
  prototype chain.  \<open>Builtin p name\<close> is the member \<open>name\<close> found on the chain that starts
  at the prototype \<open>p\<close>: a built-in function, or for \<^verbatim>\<open>__proto__\<close> the prototype object
  \<open>p\<close> itself.  Arguments of the program are values; a built-in member only comes out of
  a property read.
\<close>

datatype proto = ObjectProto | NumberProto | BooleanProto | StringProto | ArrayProto

datatype propval = Value jsval | Builtin proto string

text \<open>\<^verbatim>\<open>type Fn<V, R> = (value: V) => R\<close>: a validator, a function without effects
  that returns on everything a property read can give; its result is used for its
  truthiness only.\<close>

type_synonym validator = "propval \<Rightarrow> jsval"

text \<open>
  The \<^verbatim>\<open>fns\<close> argument: either a table from field names to validator lists
  (\<^verbatim>\<open>type Fns<V, R> = { [K in keyof V]?: Fn<V[K], R>[] }\<close>), or any function-free
  value that a caller passes in its place (\<^verbatim>\<open>null\<close>, an array, a primitive).
\<close>

datatype fns = FVal jsval | FTable "(string \<times> validator list) list"

text \<open>What the program throws: \<^verbatim>\<open>new Error(message)\<close>, or the engine's
  \<^verbatim>\<open>TypeError\<close> (a property read on \<^verbatim>\<open>null\<close>/\<^verbatim>\<open>undefined\<close>, a call of a
  non-function).\<close>

datatype error = Error string | TypeError

fun truthy :: "jsval \<Rightarrow> bool" where
  "truthy JUndefined = False"
| "truthy JNull = False"
| "truthy (JBool b) = b"
| "truthy (JNum n) = (n \<noteq> 0)"
| "truthy (JStr s) = (s \<noteq> [])"
| "truthy (JArr xs) = True"
| "truthy (JObj ps) = True"

text \<open>The property name of an array or string index: its decimal numeral.\<close>

definition digit_char :: "nat \<Rightarrow> char" where
  "digit_char d = ''0123456789'' ! d"

fun index_key :: "nat \<Rightarrow> string" where
  "index_key n =
     (if n < 10 then [digit_char n] else index_key (n div 10) @ [digit_char (n mod 10)])"

declare index_key.simps [simp del]

text \<open>The own enumerable properties of a value, as object spread and
  \<^verbatim>\<open>Object.keys\<close> enumerate them.\<close>

fun own_props :: "jsval \<Rightarrow> (string \<times> jsval) list" where
  "own_props (JObj ps) = ps"
| "own_props (JArr xs) = zip (map index_key [0..<length xs]) xs"
| "own_props (JStr s) = zip (map index_key [0..<length s]) (map (\<lambda>c. JStr [c]) s)"
| "own_props v = []"

text \<open>\<^verbatim>\<open>Object.keys(v)\<close>.\<close>

definition object_keys :: "jsval \<Rightarrow> error + string list" where
  "object_keys v =
     (if v = JNull \<or> v = JUndefined then Inl TypeError else Inr (map fst (own_props v)))"

text \<open>
  The string-named members of the built-in prototype objects, as ECMAScript 2025 (with
  its Annex B) lists them.  Every prototype but \<^verbatim>\<open>Object.prototype\<close> inherits from
  \<^verbatim>\<open>Object.prototype\<close>.
\<close>

definition object_prototype :: "string list" where
  "object_prototype =
     [''constructor'', ''hasOwnProperty'', ''isPrototypeOf'', ''propertyIsEnumerable'',
      ''toLocaleString'', ''toString'', ''valueOf'', ''__proto__'', ''__defineGetter__'',
      ''__defineSetter__'', ''__lookupGetter__'', ''__lookupSetter__'']"

definition number_prototype :: "string list" where
  "number_prototype =
     [''constructor'', ''toExponential'', ''toFixed'', ''toLocaleString'', ''toPrecision'',
      ''toString'', ''valueOf'']"

definition boolean_prototype :: "string list" where
  "boolean_prototype = [''constructor'', ''toString'', ''valueOf'']"

definition string_prototype :: "string list" where
  "string_prototype =
     [''at'', ''charAt'', ''charCodeAt'', ''codePointAt'', ''concat'', ''constructor'',
      ''endsWith'', ''includes'', ''indexOf'', ''isWellFormed'', ''lastIndexOf'',
      ''localeCompare'', ''match'', ''matchAll'', ''normalize'', ''padEnd'', ''padStart'',
      ''repeat'', ''replace'', ''replaceAll'', ''search'', ''slice'', ''split'',
      ''startsWith'', ''substring'', ''toLocaleLowerCase'', ''toLocaleUpperCase'',
      ''toLowerCase'', ''toString'', ''toUpperCase'', ''toWellFormed'', ''trim'',
      ''trimEnd'', ''trimStart'', ''valueOf'', ''substr'', ''anchor'', ''big'', ''blink'',
      ''bold'', ''fixed'', ''fontcolor'', ''fontsize'', ''italics'', ''link'', ''small'',
      ''strike'', ''sub'', ''sup'', ''trimLeft'', ''trimRight'']"

definition array_prototype :: "string list" where
  "array_prototype =
     [''at'', ''concat'', ''constructor'', ''copyWithin'', ''entries'', ''every'', ''fill'',
      ''filter'', ''find'', ''findIndex'', ''findLast'', ''findLastIndex'', ''flat'',
      ''flatMap'', ''forEach'', ''includes'', ''indexOf'', ''join'', ''keys'',
      ''lastIndexOf'', ''map'', ''pop'', ''push'', ''reduce'', ''reduceRight'', ''reverse'',
      ''shift'', ''slice'', ''some'', ''sort'', ''splice'', ''toLocaleString'',
      ''toReversed'', ''toSorted'', ''toSpliced'', ''toString'', ''unshift'', ''values'',
      ''with'']"

fun proto_names :: "proto \<Rightarrow> string list" where
  "proto_names ObjectProto = object_prototype"
| "proto_names NumberProto = number_prototype @ object_prototype"
| "proto_names BooleanProto = boolean_prototype @ object_prototype"
| "proto_names StringProto = string_prototype @ object_prototype"
| "proto_names ArrayProto = array_prototype @ object_prototype"

text \<open>The read of a name that is no own property: the inherited member, or
  \<^verbatim>\<open>undefined\<close>.\<close>

definition inherited :: "proto \<Rightarrow> string \<Rightarrow> propval" where
  "inherited p key = (if key \<in> set (proto_names p) then Builtin p key else Value JUndefined)"

text \<open>The read of a name on a value that has own properties \<open>ps\<close> and the prototype
  \<open>p\<close>: an own property hides an inherited member of the same name.\<close>

definition read_prop :: "(string \<times> jsval) list \<Rightarrow> proto \<Rightarrow> string \<Rightarrow> propval" where
  "read_prop ps p key = (case map_of ps key of Some x \<Rightarrow> Value x | None \<Rightarrow> inherited p key)"

text \<open>\<^verbatim>\<open>v[key]\<close>.  A read on \<^verbatim>\<open>null\<close> or \<^verbatim>\<open>undefined\<close> throws; an array and a
  string have the own property \<^verbatim>\<open>length\<close> besides their indices.\<close>

fun get_prop :: "jsval \<Rightarrow> string \<Rightarrow> error + propval" where
  "get_prop JUndefined key = Inl TypeError"
| "get_prop JNull key = Inl TypeError"
| "get_prop (JBool b) key = Inr (inherited BooleanProto key)"
| "get_prop (JNum n) key = Inr (inherited NumberProto key)"
| "get_prop (JStr s) key =
     Inr (if key = ''length'' then Value (JNum (int (length s)))
          else read_prop (own_props (JStr s)) StringProto key)"
| "get_prop (JArr xs) key =
     Inr (if key = ''length'' then Value (JNum (int (length xs)))
          else read_prop (own_props (JArr xs)) ArrayProto key)"
| "get_prop (JObj ps) key = Inr (read_prop ps ObjectProto key)"

section \<open>The form\<close>

text \<open>\<^verbatim>\<open>interface Data<V, R>\<close> with \<^verbatim>\<open>R = boolean\<close>: the fields of a
  \<^verbatim>\<open>Form\<close> instance.\<close>

record form =
  form_values :: jsval
  form_fns :: fns
  form_dirty :: bool
  form_touched :: bool
  form_errors :: "(string \<times> bool) list"
  form_invalid :: bool

text \<open>\<^verbatim>\<open>_isInvalidParam\<close>, on a value and on the \<^verbatim>\<open>fns\<close> argument.\<close>

definition isInvalidParam :: "jsval \<Rightarrow> bool" where
  "isInvalidParam v = (v = JNull \<or> v = JUndefined \<or> (case v of JArr xs \<Rightarrow> True | _ \<Rightarrow> False))"

definition isInvalidParam_fns :: "fns \<Rightarrow> bool" where
  "isInvalidParam_fns fs = (case fs of FVal v \<Rightarrow> isInvalidParam v | FTable tbl \<Rightarrow> False)"

subsection \<open>Validation\<close>

text \<open>
  \<^verbatim>\<open>fns[key] ? fns[key]?.some((fn) => fn(value)) : false\<close>.  The read
  \<^verbatim>\<open>fns[key]\<close> goes through the prototype chain of \<^verbatim>\<open>fns\<close>.

  On a table (a plain object) an own entry is a list of validators.  Without an own
  entry, a key that names a member of \<^verbatim>\<open>Object.prototype\<close> reads that member, which
  is truthy and has no \<^verbatim>\<open>some\<close>: the call throws \<^verbatim>\<open>TypeError\<close>.  Any other key
  reads \<^verbatim>\<open>undefined\<close>.

  On a function-free value, a truthy own entry other than the empty array has no
  callable \<^verbatim>\<open>some\<close>, or \<^verbatim>\<open>some\<close> calls an element that is not a function: both throw
  \<^verbatim>\<open>TypeError\<close>.  An inherited member is truthy and has no \<^verbatim>\<open>some\<close>, but for
  \<^verbatim>\<open>__proto__\<close> on an array: that is \<^verbatim>\<open>Array.prototype\<close>, an empty array, on which
  \<^verbatim>\<open>some\<close> returns \<^verbatim>\<open>false\<close>.
\<close>

definition field_result :: "fns \<Rightarrow> string \<Rightarrow> propval \<Rightarrow> error + bool" where
  "field_result fs key v =
     (case fs of
        FTable tbl \<Rightarrow>
          (case map_of tbl key of
             Some fl \<Rightarrow> Inr (list_ex (\<lambda>fn. truthy (fn v)) fl)
           | None \<Rightarrow>
               (case inherited ObjectProto key of
                  Builtin p name \<Rightarrow> Inl TypeError
                | Value x \<Rightarrow> Inr False))
      | FVal w \<Rightarrow>
          (case get_prop w key of
             Inl e \<Rightarrow> Inl e
           | Inr (Value entry) \<Rightarrow>
               if truthy entry
               then (if entry = JArr [] then Inr False else Inl TypeError)
               else Inr False
           | Inr (Builtin p name) \<Rightarrow>
               if p = ArrayProto \<and> name = ''__proto__'' then Inr False else Inl TypeError))"

text \<open>The \<^verbatim>\<open>keys.reduce\<close> of \<^verbatim>\<open>validate\<close>, with its accumulator.\<close>

fun validate_reduce ::
  "string list \<Rightarrow> jsval \<Rightarrow> fns \<Rightarrow> (string \<times> bool) list \<Rightarrow> error + (string \<times> bool) list" where
  "validate_reduce [] vs fs acc = Inr acc"
| "validate_reduce (key # keys) vs fs acc =
     (case get_prop vs key of
        Inl e \<Rightarrow> Inl e
      | Inr v \<Rightarrow>
          (case field_result fs key v of
             Inl e \<Rightarrow> Inl e
           | Inr result \<Rightarrow> validate_reduce keys vs fs (AList.update key result acc)))"

definition validate ::
  "string list \<Rightarrow> jsval \<Rightarrow> fns \<Rightarrow> error + (string \<times> bool) list \<times> bool" where
  "validate keys vs fs =
     (case validate_reduce keys vs fs [] of
        Inl e \<Rightarrow> Inl e
      | Inr errs \<Rightarrow> Inr (errs, list_ex (\<lambda>key. map_of errs key = Some True) keys))"

text \<open>\<^verbatim>\<open>_setValidation\<close>: the instance with \<^verbatim>\<open>errors\<close> and \<^verbatim>\<open>invalid\<close>
  overwritten, or the exception of the validation pass.\<close>

definition setValidation :: "form \<Rightarrow> error + form" where
  "setValidation f =
     (case object_keys (form_values f) of
        Inl e \<Rightarrow> Inl e
      | Inr keys \<Rightarrow>
          (case validate keys (form_values f) (form_fns f) of
             Inl e \<Rightarrow> Inl e
           | Inr (errs, bad) \<Rightarrow> Inr (f\<lparr>form_errors := errs, form_invalid := bad\<rparr>)))"

subsection \<open>Construction\<close>

text \<open>
  \<^verbatim>\<open>constructor(values, fns = {}, dirty = false, touched = false)\<close>: a default
  replaces an argument that is \<^verbatim>\<open>undefined\<close> (or left out) before the body runs.
\<close>

definition default_fns :: "fns \<Rightarrow> fns" where
  "default_fns fs = (case fs of FVal JUndefined \<Rightarrow> FTable [] | _ \<Rightarrow> fs)"

definition default_flag :: "bool option \<Rightarrow> bool" where
  "default_flag b = (case b of None \<Rightarrow> False | Some x \<Rightarrow> x)"

definition Form_new :: "jsval \<Rightarrow> fns \<Rightarrow> bool option \<Rightarrow> bool option \<Rightarrow> error + form" where
  "Form_new vs fs d t =
     (if isInvalidParam vs then Inl (Error ''values parameter must be an object'')
      else if isInvalidParam_fns (default_fns fs) then Inl (Error ''fns parameter must be an object'')
      else setValidation
             \<lparr>form_values = vs, form_fns = default_fns fs, form_dirty = default_flag d,
              form_touched = default_flag t, form_errors = [], form_invalid = False\<rparr>)"

text \<open>\<^verbatim>\<open>Form.build(values)\<close> with the other arguments left out.\<close>

definition build :: "jsval \<Rightarrow> error + form" where
  "build vs = Form_new vs (FVal JUndefined) None None"

subsection \<open>The methods\<close>

text \<open>
  A method takes the receiver and returns the receiver as the call leaves it, together
  with what the call returns or throws.
\<close>

definition markAsDirty :: "form \<Rightarrow> form" where
  "markAsDirty f = f\<lparr>form_dirty := True\<rparr>"

definition markAsTouched :: "form \<Rightarrow> form" where
  "markAsTouched f = f\<lparr>form_touched := True\<rparr>"

text \<open>Object spread \<^verbatim>\<open>{ ...obj, ...src }\<close> onto the properties collected so far: a
  property that exists is overwritten in place, a new one is appended.\<close>

definition spread :: "(string \<times> jsval) list \<Rightarrow> jsval \<Rightarrow> (string \<times> jsval) list" where
  "spread obj src = fold (\<lambda>(k, v). AList.update k v) (own_props src) obj"

definition setValues :: "jsval \<Rightarrow> form \<Rightarrow> form" where
  "setValues p f = f\<lparr>form_values := JObj (spread (spread [] (form_values f)) p)\<rparr>"

definition Form_next :: "jsval \<Rightarrow> form \<Rightarrow> form \<times> (error + form)" where
  "Form_next p f =
     (let f1 = markAsTouched f;
          f2 = setValues p f1
      in (f2, Form_new (form_values f2) (form_fns f2)
                (Some (form_dirty f2)) (Some (form_touched f2))))"

definition Form_set :: "jsval \<Rightarrow> form \<Rightarrow> form \<times> (error + unit)" where
  "Form_set p f =
     (if isInvalidParam p then (f, Inl (Error ''values parameter must be an object''))
      else
        (let f1 = markAsTouched f;
             f2 = setValues p f1
         in (case setValidation f2 of
               Inl e \<Rightarrow> (f2, Inl e)
             | Inr f3 \<Rightarrow> (f3, Inr ()))))"

text \<open>\<^verbatim>\<open>interface SubmitEvent { preventDefault(): void }\<close>: the event counts the
  calls of its hook.\<close>

record submit_event =
  prevented :: nat

definition preventDefault :: "submit_event \<Rightarrow> submit_event" where
  "preventDefault e = e\<lparr>prevented := Suc (prevented e)\<rparr>"

definition preventSubmit :: "submit_event option \<Rightarrow> submit_event option" where
  "preventSubmit e = (case e of None \<Rightarrow> None | Some ev \<Rightarrow> Some (preventDefault ev))"

definition Form_submit ::
  "submit_event option \<Rightarrow> form \<Rightarrow> submit_event option \<times> form \<times> (error + form)" where
  "Form_submit e f =
     (let e1 = preventSubmit e;
          f1 = markAsDirty f
      in (e1, f1, Form_new (form_values f1) (form_fns f1)
                    (Some (form_dirty f1)) (Some (form_touched f1))))"

section \<open>Notions used in the statements\<close>

text \<open>What the validation pass computes for field \<open>k\<close> from a table of validators:
  false without an entry, otherwise whether some validator of the entry returns a truthy
  value on \<^verbatim>\<open>values[k]\<close>.\<close>

definition table_result :: "(string \<times> validator list) list \<Rightarrow> jsval \<Rightarrow> string \<Rightarrow> bool" where
  "table_result tbl vs k =
     (case map_of tbl k of
        None \<Rightarrow> False
      | Some fl \<Rightarrow> list_ex (\<lambda>fn. truthy (fn (projr (get_prop vs k)))) fl)"

text \<open>The validator of the test suite, \<^verbatim>\<open>(value) => value.length === 0\<close>, on the
  values the tests give it.\<close>

definition length_is_zero :: validator where
  "length_is_zero x =
     JBool (case x of
              Value v \<Rightarrow> get_prop v ''length'' = Inr (Value (JNum 0))
            | Builtin p name \<Rightarrow> False)"



text \<open>
  A condition on \<^verbatim>\<open>fns\<close> and a list of field names under which no read
  \<^verbatim>\<open>fns[key]\<close> gives an inherited member: \<^verbatim>\<open>fns\<close> is a table in which every field
  that is named like a member of \<^verbatim>\<open>Object.prototype\<close> has an own entry, or \<^verbatim>\<open>fns\<close>
  is a number or a boolean and no field is named like a member it inherits.
\<close>

definition table_covers :: "(string \<times> validator list) list \<Rightarrow> string list \<Rightarrow> bool" where
  "table_covers tbl keys =
     list_all (\<lambda>k. k \<in> set object_prototype \<longrightarrow> map_of tbl k \<noteq> None) keys"


text \<open>The field names of a value: the names of its own enumerable properties.\<close>

definition field_names :: "jsval \<Rightarrow> string list" where
  "field_names v = map fst (own_props v)"

text \<open>No property name occurs twice among the own properties of a value.\<close>

definition distinct_props :: "jsval \<Rightarrow> bool" where
  "distinct_props v = distinct (map fst (own_props v))"

text \<open>The instance whose \<^verbatim>\<open>errors\<close> and \<^verbatim>\<open>invalid\<close> are those of a validation
  pass over its current \<^verbatim>\<open>values\<close> and \<^verbatim>\<open>fns\<close>.\<close>

definition validated :: "form \<Rightarrow> bool" where
  "validated f = (setValidation f = Inr f)"

text \<open>The instance that \<^verbatim>\<open>Form({})\<close> returns.\<close>

definition empty_form :: form where
  "empty_form =
     \<lparr>form_values = JObj [], form_fns = FTable [], form_dirty = False,
      form_touched = False, form_errors = [], form_invalid = False\<rparr>"

section \<open>Object spread\<close>











text \<open>Index names are pairwise different, so only an object given with a repeated
  property name fails \<open>distinct_props\<close>.\<close>

lemma digit_char_inj: "d < 10 \<Longrightarrow> e < 10 \<Longrightarrow> digit_char d = digit_char e \<Longrightarrow> d = e"
proof -
  assume "d < 10" and "e < 10" and eq: "digit_char d = digit_char e"
  have dist: "distinct ''0123456789''" by simp
  have "d < length ''0123456789''" and "e < length ''0123456789''"
    using \<open>d < 10\<close> \<open>e < 10\<close> by simp_all
  with dist eq show "d = e"
    unfolding digit_char_def by (simp only: nth_eq_iff_index_eq)
qed

lemma index_key_nonempty: "index_key n \<noteq> []"
  by (subst index_key.simps) simp

lemma index_key_last: "last (index_key n) = digit_char (n mod 10)"
  by (subst index_key.simps) simp

lemma index_key_butlast:
  "butlast (index_key n) = (if n < 10 then [] else index_key (n div 10))"
  by (subst index_key.simps) simp

lemma index_key_inj: "index_key n = index_key m \<Longrightarrow> n = m"
proof (induction n arbitrary: m rule: less_induct)
  case (less n)
  from less.prems have "last (index_key n) = last (index_key m)" by simp
  then have "digit_char (n mod 10) = digit_char (m mod 10)"
    by (simp add: index_key_last)
  then have r: "n mod 10 = m mod 10"
    by (rule digit_char_inj [rotated 2]) simp_all
  from less.prems have b: "butlast (index_key n) = butlast (index_key m)" by simp
  show ?case
  proof (cases "n < 10")
    case True
    with b have "m < 10"
      using index_key_nonempty [of "m div 10"]
      by (auto simp: index_key_butlast split: if_splits)
    with True r show ?thesis by simp
  next
    case False
    with b have m: "\<not> m < 10"
      using index_key_nonempty [of "n div 10"]
      by (auto simp: index_key_butlast split: if_splits)
    with False b have "index_key (n div 10) = index_key (m div 10)"
      by (simp add: index_key_butlast)
    moreover from False have "n div 10 < n" by simp
    ultimately have "n div 10 = m div 10"
      by (rule less.IH [rotated])
    with r show ?thesis
      by (metis div_mult_mod_eq)
  qed
qed

lemma index_keys_distinct: "distinct (map index_key [0..<n])"
  by (simp add: distinct_map inj_on_def index_key_inj)

lemma distinct_props_no_object: "\<forall>ps. v \<noteq> JObj ps \<Longrightarrow> distinct_props v"
  by (cases v) (simp_all add: distinct_props_def index_keys_distinct)

lemma distinct_props_object: "distinct_props (JObj ps) \<longleftrightarrow> distinct (map fst ps)"
  by (simp add: distinct_props_def)

section \<open>The validation pass on a table of validators\<close>

lemma get_prop_defined:
  "vs \<noteq> JNull \<Longrightarrow> vs \<noteq> JUndefined \<Longrightarrow> get_prop vs k = Inr (projr (get_prop vs k))"
  by (cases vs) simp_all

lemma table_covers_iff:
  "table_covers tbl keys \<longleftrightarrow> (\<forall>k \<in> set keys. k \<in> set object_prototype \<longrightarrow> map_of tbl k \<noteq> None)"
  by (simp add: table_covers_def list_all_iff)

lemma field_result_table:
  "field_result (FTable tbl) k v =
     (if map_of tbl k = None \<and> k \<in> set object_prototype then Inl TypeError
      else Inr (case map_of tbl k of
                  None \<Rightarrow> False
                | Some fl \<Rightarrow> list_ex (\<lambda>fn. truthy (fn v)) fl))"
  by (simp add: field_result_def inherited_def split: option.splits)

lemma validate_reduce_table:
  "vs \<noteq> JNull \<Longrightarrow> vs \<noteq> JUndefined \<Longrightarrow>
   validate_reduce keys vs (FTable tbl) acc =
     (if table_covers tbl keys
      then Inr (fold (\<lambda>k. AList.update k (table_result tbl vs k)) keys acc)
      else Inl TypeError)"
proof (induction keys arbitrary: acc)
  case Nil
  then show ?case by (simp add: table_covers_def)
next
  case (Cons k keys)
  have g: "get_prop vs k = Inr (projr (get_prop vs k))"
    using Cons.prems by (rule get_prop_defined)
  show ?case
  proof (cases "map_of tbl k = None \<and> k \<in> set object_prototype")
    case True
    then have "field_result (FTable tbl) k (projr (get_prop vs k)) = Inl TypeError"
      by (simp add: field_result_table)
    then have "validate_reduce (k # keys) vs (FTable tbl) acc = Inl TypeError"
      by (subst validate_reduce.simps, subst g) simp
    moreover from True have "\<not> table_covers tbl (k # keys)"
      by (auto simp: table_covers_def)
    ultimately show ?thesis by simp
  next
    case False
    then have r: "field_result (FTable tbl) k (projr (get_prop vs k)) = Inr (table_result tbl vs k)"
      by (simp add: field_result_table table_result_def)
    have "validate_reduce (k # keys) vs (FTable tbl) acc
          = validate_reduce keys vs (FTable tbl) (AList.update k (table_result tbl vs k) acc)"
      by (subst validate_reduce.simps, subst g) (simp add: r)
    moreover from False have "table_covers tbl (k # keys) = table_covers tbl keys"
      by (auto simp: table_covers_def)
    ultimately show ?thesis
      using Cons.IH [OF Cons.prems] by simp
  qed
qed

lemma fold_key_update_map_of:
  "map_of (fold (\<lambda>k. AList.update k (g k)) keys acc) k =
     (if k \<in> set keys then Some (g k) else map_of acc k)"
  by (induction keys arbitrary: acc) (auto simp: update_conv')



lemma validate_table:
  assumes "vs \<noteq> JNull" and "vs \<noteq> JUndefined"
  shows "validate keys vs (FTable tbl) =
           (if table_covers tbl keys
            then Inr (fold (\<lambda>k. AList.update k (table_result tbl vs k)) keys [],
                      list_ex (table_result tbl vs) keys)
            else Inl TypeError)"
proof -
  let ?errs = "fold (\<lambda>k. AList.update k (table_result tbl vs k)) keys []"
  have "list_ex (\<lambda>key. map_of ?errs key = Some True) keys = list_ex (table_result tbl vs) keys"
    by (simp add: list_ex_iff fold_key_update_map_of)
  then show ?thesis
    by (simp add: validate_def validate_reduce_table [OF assms])
qed









section \<open>\<open>set\<close> on a rejected argument\<close>

text \<open>
  C9.  When the argument of \<open>set\<close> is \<^verbatim>\<open>null\<close>, \<^verbatim>\<open>undefined\<close> or an array, the call
  throws the error "values parameter must be an object" and leaves the receiver as it
  was: values, fns, errors, invalid, dirty and touched are all unchanged.
\<close>

theorem set_invalid_partial_atomic:
  "p = JNull \<or> p = JUndefined \<or> p = JArr xs \<Longrightarrow>
   Form_set p f = (f, Inl (Error ''values parameter must be an object''))"
  by (auto simp: Form_set_def isInvalidParam_def)

theorem set_invalid_partial_atomic_witness:
  "Form_set (JArr [JNum 1])
     \<lparr>form_values = JObj [(''code'', JNum 112)], form_fns = FTable [], form_dirty = False,
      form_touched = False, form_errors = [(''code'', False)], form_invalid = False\<rparr>
   = (\<lparr>form_values = JObj [(''code'', JNum 112)], form_fns = FTable [], form_dirty = False,
      form_touched = False, form_errors = [(''code'', False)], form_invalid = False\<rparr>,
      Inl (Error ''values parameter must be an object''))"
  using set_invalid_partial_atomic [of "JArr [JNum 1]" "[JNum 1]"] by simp

section \<open>The argument checks of the constructor\<close>


lemma setValidation_table:
  assumes "\<not> isInvalidParam (form_values f)" and "form_fns f = FTable tbl"
    and "table_covers tbl (field_names (form_values f))"
  shows "setValidation f =
     Inr (f\<lparr>form_errors :=
               fold (\<lambda>k. AList.update k (table_result tbl (form_values f) k))
                 (field_names (form_values f)) [],
            form_invalid :=
               list_ex (table_result tbl (form_values f)) (field_names (form_values f))\<rparr>)"
proof -
  from assms(1) have n: "form_values f \<noteq> JNull" "form_values f \<noteq> JUndefined"
    by (auto simp: isInvalidParam_def)
  have "object_keys (form_values f) = Inr (field_names (form_values f))"
    using n by (simp add: object_keys_def field_names_def)
  then show ?thesis
    using n assms(3) by (simp add: setValidation_def assms(2) validate_table)
qed

lemma setValidation_uncovered:
  assumes "\<not> isInvalidParam (form_values f)" and "form_fns f = FTable tbl"
    and "\<not> table_covers tbl (field_names (form_values f))"
  shows "setValidation f = Inl TypeError"
proof -
  from assms(1) have n: "form_values f \<noteq> JNull" "form_values f \<noteq> JUndefined"
    by (auto simp: isInvalidParam_def)
  have "object_keys (form_values f) = Inr (field_names (form_values f))"
    using n by (simp add: object_keys_def field_names_def)
  then show ?thesis
    using n assms(3) by (simp add: setValidation_def assms(2) validate_table)
qed

lemma Form_new_table:
  assumes "\<not> isInvalidParam vs" and "table_covers tbl (field_names vs)"
  shows "Form_new vs (FTable tbl) d t =
     Inr \<lparr>form_values = vs, form_fns = FTable tbl, form_dirty = default_flag d,
          form_touched = default_flag t,
          form_errors = fold (\<lambda>k. AList.update k (table_result tbl vs k)) (field_names vs) [],
          form_invalid = list_ex (table_result tbl vs) (field_names vs)\<rparr>"
  using assms
  by (simp add: Form_new_def default_fns_def isInvalidParam_fns_def setValidation_table)

lemma Form_new_uncovered:
  assumes "\<not> isInvalidParam vs" and "\<not> table_covers tbl (field_names vs)"
  shows "Form_new vs (FTable tbl) d t = Inl TypeError"
  using assms
  by (simp add: Form_new_def default_fns_def isInvalidParam_fns_def setValidation_uncovered)

text \<open>
  C5, as amended.  Construction throws the error "values parameter must be an object"
  when \<^verbatim>\<open>values\<close> is \<^verbatim>\<open>null\<close>, \<^verbatim>\<open>undefined\<close> or an array, whatever \<^verbatim>\<open>fns\<close> is.
  When \<^verbatim>\<open>values\<close> passes the check, construction throws "fns parameter must be an
  object" when \<^verbatim>\<open>fns\<close> is \<^verbatim>\<open>null\<close> or an array.  An \<^verbatim>\<open>undefined\<close> \<^verbatim>\<open>fns\<close> is
  replaced by the default \<^verbatim>\<open>{}\<close>: construction then behaves as with the empty table
  and, for \<^verbatim>\<open>values\<close> that pass the check and have no field named like a member of
  \<^verbatim>\<open>Object.prototype\<close>, returns an instance.  A call that throws returns no instance.
\<close>

theorem construction_errors:
  "(vs = JNull \<or> vs = JUndefined \<or> vs = JArr xs \<longrightarrow>
      Form_new vs fs d t = Inl (Error ''values parameter must be an object'')) \<and>
   (\<not> isInvalidParam vs \<and> (fs = FVal JNull \<or> fs = FVal (JArr ys)) \<longrightarrow>
      Form_new vs fs d t = Inl (Error ''fns parameter must be an object'')) \<and>
   Form_new vs (FVal JUndefined) d t = Form_new vs (FTable []) d t \<and>
   (\<not> isInvalidParam vs \<and> table_covers [] (field_names vs) \<longrightarrow>
      (\<exists>f. Form_new vs (FVal JUndefined) d t = Inr f))"
proof -
  have a: "vs = JNull \<or> vs = JUndefined \<or> vs = JArr xs \<longrightarrow>
      Form_new vs fs d t = Inl (Error ''values parameter must be an object'')"
    by (auto simp: Form_new_def isInvalidParam_def)
  have b: "\<not> isInvalidParam vs \<and> (fs = FVal JNull \<or> fs = FVal (JArr ys)) \<longrightarrow>
      Form_new vs fs d t = Inl (Error ''fns parameter must be an object'')"
    by (auto simp: Form_new_def isInvalidParam_fns_def default_fns_def isInvalidParam_def)
  have c: "Form_new vs (FVal JUndefined) d t = Form_new vs (FTable []) d t"
    by (simp add: Form_new_def default_fns_def)
  have e: "\<not> isInvalidParam vs \<and> table_covers [] (field_names vs) \<longrightarrow>
      (\<exists>f. Form_new vs (FVal JUndefined) d t = Inr f)"
    by (simp add: c Form_new_table)
  from a b c e show ?thesis by blast
qed

theorem construction_errors_witness:
  "Form_new (JArr []) (FVal JNull) None None = Inl (Error ''values parameter must be an object'') \<and>
   Form_new (JObj []) (FVal (JArr [])) None None = Inl (Error ''fns parameter must be an object'') \<and>
   (\<exists>f. Form_new (JObj []) (FVal JUndefined) None None = Inr f)"
proof -
  have h: "\<not> isInvalidParam (JObj [])" by (simp add: isInvalidParam_def)
  have h2: "table_covers [] (field_names (JObj []))"
    by (simp add: table_covers_def field_names_def)
  from construction_errors [of "JArr []" "[]" "FVal JNull" None None "[]"]
  have a: "Form_new (JArr []) (FVal JNull) None None = Inl (Error ''values parameter must be an object'')"
    by simp
  from construction_errors [of "JObj []" "[]" "FVal (JArr [])" None None "[]"] h
  have b: "Form_new (JObj []) (FVal (JArr [])) None None = Inl (Error ''fns parameter must be an object'')"
    by simp
  from construction_errors [of "JObj []" "[]" "FVal JUndefined" None None "[]"] h h2
  have c: "\<exists>f. Form_new (JObj []) (FVal JUndefined) None None = Inr f"
    by blast
  from a b c show ?thesis by simp
qed

text \<open>C5 as stated fails: \<^verbatim>\<open>Form({}, undefined)\<close> throws nothing and returns an
  instance with the default \<^verbatim>\<open>fns\<close>.\<close>

theorem undefined_fns_counterexample:
  "Form_new (JObj []) (FVal JUndefined) None None =
     Inr \<lparr>form_values = JObj [], form_fns = FTable [], form_dirty = False,
          form_touched = False, form_errors = [], form_invalid = False\<rparr>"
  by (simp add: Form_new_def isInvalidParam_def isInvalidParam_fns_def default_fns_def
      default_flag_def setValidation_def object_keys_def validate_def)

section \<open>\<open>next\<close> and its argument\<close>

lemma build_empty: "build (JObj []) = Inr empty_form"
  by (simp add: build_def Form_new_def isInvalidParam_def isInvalidParam_fns_def default_fns_def
      default_flag_def setValidation_def object_keys_def validate_def empty_form_def)


lemma Form_next_table:
  assumes "form_fns f = FTable tbl"
  shows "Form_next p f =
     (f\<lparr>form_touched := True, form_values := JObj (spread (spread [] (form_values f)) p)\<rparr>,
      Form_new (JObj (spread (spread [] (form_values f)) p)) (FTable tbl)
        (Some (form_dirty f)) (Some True))"
  using assms by (simp add: Form_next_def Let_def markAsTouched_def setValues_def)

text \<open>
  C1.  The claim is that \<open>next\<close> throws "values parameter must be an object" on
  \<^verbatim>\<open>null\<close>, \<^verbatim>\<open>undefined\<close> and arrays, as \<open>set\<close> does.  The code of \<open>next\<close> has no
  argument check: spreading \<^verbatim>\<open>null\<close>, \<^verbatim>\<open>undefined\<close> or \<^verbatim>\<open>[]\<close> into the values
  adds nothing, and the constructor then sees an object.  On \<^verbatim>\<open>Form({})\<close> each of
  the three calls returns a new instance and marks the receiver touched, where \<open>set\<close>
  throws.
\<close>

theorem next_accepts_invalid_partial:
  "build (JObj []) = Inr empty_form \<and>
   Form_next JNull empty_form =
     (empty_form\<lparr>form_touched := True\<rparr>, Inr (empty_form\<lparr>form_touched := True\<rparr>)) \<and>
   Form_next JUndefined empty_form =
     (empty_form\<lparr>form_touched := True\<rparr>, Inr (empty_form\<lparr>form_touched := True\<rparr>)) \<and>
   Form_next (JArr []) empty_form =
     (empty_form\<lparr>form_touched := True\<rparr>, Inr (empty_form\<lparr>form_touched := True\<rparr>)) \<and>
   Form_set JNull empty_form =
     (empty_form, Inl (Error ''values parameter must be an object''))"
proof -
  have n: "Form_new (JObj []) (FTable []) (Some False) (Some True) = Inr (empty_form\<lparr>form_touched := True\<rparr>)"
    by (simp add: Form_new_def isInvalidParam_def isInvalidParam_fns_def default_fns_def
      default_flag_def setValidation_def object_keys_def validate_def empty_form_def)
  have f: "form_fns empty_form = FTable []" by (simp add: empty_form_def)
  have a: "Form_next JNull empty_form =
     (empty_form\<lparr>form_touched := True\<rparr>, Inr (empty_form\<lparr>form_touched := True\<rparr>))"
    unfolding Form_next_table [OF f] using n by (simp add: empty_form_def spread_def)
  have b: "Form_next JUndefined empty_form =
     (empty_form\<lparr>form_touched := True\<rparr>, Inr (empty_form\<lparr>form_touched := True\<rparr>))"
    unfolding Form_next_table [OF f] using n by (simp add: empty_form_def spread_def)
  have c: "Form_next (JArr []) empty_form =
     (empty_form\<lparr>form_touched := True\<rparr>, Inr (empty_form\<lparr>form_touched := True\<rparr>))"
    unfolding Form_next_table [OF f] using n by (simp add: empty_form_def spread_def)
  have d: "Form_set JNull empty_form =
     (empty_form, Inl (Error ''values parameter must be an object''))"
    by (simp add: Form_set_def isInvalidParam_def)
  from build_empty a b c d show ?thesis by simp
qed

section \<open>Errors and the invalid flag after each operation\<close>

lemma setValidation_validated: "setValidation f = Inr g \<Longrightarrow> validated g"
  by (auto simp: validated_def setValidation_def split: sum.splits prod.splits)

lemma Form_new_validated: "Form_new vs fs d t = Inr f \<Longrightarrow> validated f"
  by (auto simp: Form_new_def split: if_splits intro: setValidation_validated)

lemma Form_set_validated: "Form_set p f = (r, Inr u) \<Longrightarrow> validated r"
  by (auto simp: Form_set_def Let_def split: if_splits sum.splits intro: setValidation_validated)

lemma markAsDirty_validated:
  assumes "validated f"
  shows "validated (markAsDirty f)"
proof -
  from assms obtain keys errs bad where
    k: "object_keys (form_values f) = Inr keys" and
    v: "validate keys (form_values f) (form_fns f) = Inr (errs, bad)" and
    e: "f\<lparr>form_errors := errs, form_invalid := bad\<rparr> = f"
    by (auto simp: validated_def setValidation_def split: sum.splits prod.splits)
  from e have "form_errors f = errs" "form_invalid f = bad"
    by (metis form.select_convs(5) form.surjective form.update_convs(5) form.update_convs(6),
        metis form.select_convs(6) form.surjective form.update_convs(6))
  then show ?thesis
    using k v by (simp add: validated_def markAsDirty_def setValidation_def)
qed

text \<open>
  C2.  The claim is that after every operation the instance's errors and invalid flag
  are those of a validation pass over its current values, the receiver of \<open>next\<close>
  included.  \<open>next\<close> merges the partial values into the receiver and does not validate
  it again: on \<^verbatim>\<open>Form({email: 'a'}, {email: [v => v.length === 0]})\<close>, after
  \<^verbatim>\<open>next({email: ''})\<close> the receiver holds the empty email with
  \<^verbatim>\<open>errors.email = false\<close> and \<^verbatim>\<open>invalid = false\<close>, while a validation pass over it
  gives \<^verbatim>\<open>true\<close> for both.
\<close>

theorem next_leaves_receiver_stale:
  "Form_new (JObj [(''email'', JStr ''a'')]) (FTable [(''email'', [length_is_zero])]) None None =
     Inr \<lparr>form_values = JObj [(''email'', JStr ''a'')],
          form_fns = FTable [(''email'', [length_is_zero])], form_dirty = False,
          form_touched = False, form_errors = [(''email'', False)], form_invalid = False\<rparr> \<and>
   fst (Form_next (JObj [(''email'', JStr '''')])
     \<lparr>form_values = JObj [(''email'', JStr ''a'')],
      form_fns = FTable [(''email'', [length_is_zero])], form_dirty = False,
      form_touched = False, form_errors = [(''email'', False)], form_invalid = False\<rparr>) =
     \<lparr>form_values = JObj [(''email'', JStr '''')],
      form_fns = FTable [(''email'', [length_is_zero])], form_dirty = False,
      form_touched = True, form_errors = [(''email'', False)], form_invalid = False\<rparr> \<and>
   setValidation
     \<lparr>form_values = JObj [(''email'', JStr '''')],
      form_fns = FTable [(''email'', [length_is_zero])], form_dirty = False,
      form_touched = True, form_errors = [(''email'', False)], form_invalid = False\<rparr> =
     Inr \<lparr>form_values = JObj [(''email'', JStr '''')],
          form_fns = FTable [(''email'', [length_is_zero])], form_dirty = False,
          form_touched = True, form_errors = [(''email'', True)], form_invalid = True\<rparr> \<and>
   \<not> validated
     \<lparr>form_values = JObj [(''email'', JStr '''')],
      form_fns = FTable [(''email'', [length_is_zero])], form_dirty = False,
      form_touched = True, form_errors = [(''email'', False)], form_invalid = False\<rparr>"
proof -
  have a: "Form_new (JObj [(''email'', JStr ''a'')]) (FTable [(''email'', [length_is_zero])]) None None =
     Inr \<lparr>form_values = JObj [(''email'', JStr ''a'')],
          form_fns = FTable [(''email'', [length_is_zero])], form_dirty = False,
          form_touched = False, form_errors = [(''email'', False)], form_invalid = False\<rparr>"
    by (simp add: Form_new_def isInvalidParam_def isInvalidParam_fns_def default_fns_def
      default_flag_def setValidation_def object_keys_def validate_def field_result_def
      read_prop_def length_is_zero_def)
  have b: "fst (Form_next (JObj [(''email'', JStr '''')])
     \<lparr>form_values = JObj [(''email'', JStr ''a'')],
      form_fns = FTable [(''email'', [length_is_zero])], form_dirty = False,
      form_touched = False, form_errors = [(''email'', False)], form_invalid = False\<rparr>) =
     \<lparr>form_values = JObj [(''email'', JStr '''')],
      form_fns = FTable [(''email'', [length_is_zero])], form_dirty = False,
      form_touched = True, form_errors = [(''email'', False)], form_invalid = False\<rparr>"
    by (simp add: Form_next_def Let_def markAsTouched_def setValues_def spread_def)
  have c: "setValidation
     \<lparr>form_values = JObj [(''email'', JStr '''')],
      form_fns = FTable [(''email'', [length_is_zero])], form_dirty = False,
      form_touched = True, form_errors = [(''email'', False)], form_invalid = False\<rparr> =
     Inr \<lparr>form_values = JObj [(''email'', JStr '''')],
          form_fns = FTable [(''email'', [length_is_zero])], form_dirty = False,
          form_touched = True, form_errors = [(''email'', True)], form_invalid = True\<rparr>"
    by (simp add: setValidation_def object_keys_def validate_def field_result_def
      read_prop_def length_is_zero_def)
  from c have d: "\<not> validated
     \<lparr>form_values = JObj [(''email'', JStr '''')],
      form_fns = FTable [(''email'', [length_is_zero])], form_dirty = False,
      form_touched = True, form_errors = [(''email'', False)], form_invalid = False\<rparr>"
    by (simp add: validated_def)
  from a b c d show ?thesis by blast
qed

text \<open>
  What does hold of errors and the invalid flag: they are those of a validation pass over
  the current values in every instance a constructor call returns (so in the instances
  that \<open>next\<close> and \<open>submit\<close> return), in the receiver after a \<open>set\<close> that returns, and in
  the receiver after \<open>submit\<close> when they were before.
\<close>

theorem fresh_errors_spec:
  "(Form_new vs fs d t = Inr f \<longrightarrow> validated f) \<and>
   (Form_set p g = (r, Inr u) \<longrightarrow> validated r) \<and>
   (snd (Form_next p g) = Inr n \<longrightarrow> validated n) \<and>
   (snd (snd (Form_submit e g)) = Inr n' \<longrightarrow> validated n') \<and>
   (validated g \<longrightarrow> validated (fst (snd (Form_submit e g))))"
proof -
  have a: "Form_new vs fs d t = Inr f \<longrightarrow> validated f"
    by (auto intro: Form_new_validated)
  have b: "Form_set p g = (r, Inr u) \<longrightarrow> validated r"
    by (auto intro: Form_set_validated)
  have c: "snd (Form_next p g) = Inr n \<longrightarrow> validated n"
    by (auto simp: Form_next_def Let_def intro: Form_new_validated)
  have d: "snd (snd (Form_submit e g)) = Inr n' \<longrightarrow> validated n'"
    by (auto simp: Form_submit_def Let_def intro: Form_new_validated)
  have e: "validated g \<longrightarrow> validated (fst (snd (Form_submit e g)))"
    by (auto simp: Form_submit_def Let_def intro: markAsDirty_validated)
  from a b c d e show ?thesis by blast
qed

theorem fresh_errors_spec_witness:
  "validated empty_form \<and> validated (fst (snd (Form_submit None empty_form)))"
proof -
  have h: "Form_new (JObj []) (FVal JUndefined) None None = Inr empty_form"
    using build_empty by (simp add: build_def)
  from fresh_errors_spec [of "JObj []" "FVal JUndefined" None None empty_form JNull empty_form
      empty_form "()" empty_form None empty_form] h
  show ?thesis by blast
qed

section \<open>\<open>submit\<close>\<close>





section \<open>\<open>set\<close> and \<open>next\<close> on valid partial values\<close>











section \<open>What the argument checks let through\<close>














section \<open>When the validation pass throws\<close>

text \<open>
  On a values object and a table of validators, \<open>validate\<close> throws exactly when one of
  the given fields is named like a member of \<^verbatim>\<open>Object.prototype\<close> and has no own entry
  in the table; what it throws is a \<^verbatim>\<open>TypeError\<close>.
\<close>

theorem validate_throws_iff:
  "(validate keys (JObj ps) (FTable tbl) = Inl TypeError \<longleftrightarrow>
      (\<exists>k \<in> set keys. k \<in> set object_prototype \<and> map_of tbl k = None)) \<and>
   (\<forall>e. validate keys (JObj ps) (FTable tbl) = Inl e \<longrightarrow> e = TypeError)"
proof -
  have "validate keys (JObj ps) (FTable tbl) =
          (if table_covers tbl keys
           then Inr (fold (\<lambda>k. AList.update k (table_result tbl (JObj ps) k)) keys [],
                     list_ex (table_result tbl (JObj ps)) keys)
           else Inl TypeError)"
    by (rule validate_table) simp_all
  then show ?thesis
    by (auto simp: table_covers_iff)
qed

theorem validate_throws_iff_witness:
  "validate [''code'', ''constructor''] (JObj [(''code'', JNum 112), (''constructor'', JNum 1)])
     (FTable [(''code'', [length_is_zero])]) = Inl TypeError"
proof -
  have "\<exists>k \<in> set [''code'', ''constructor''].
          k \<in> set object_prototype \<and> map_of [(''code'', [length_is_zero])] k = None"
    by (simp add: object_prototype_def)
  with validate_throws_iff [of "[''code'', ''constructor'']"
      "[(''code'', JNum 112), (''constructor'', JNum 1)]" "[(''code'', [length_is_zero])]"]
  show ?thesis by blast
qed

end
